theory Spec2Isabelle
  imports Main
begin

section \<open>Data model of the migration transport (lxd/migrate_instance.go)\<close>

text \<open>
  A websocket connection is known by its identity only. Errors are values: a plain
  \<^verbatim>\<open>fmt.Errorf(msg)\<close> (also used for the opaque errors of collaborators), a
  \<^verbatim>\<open>fmt.Errorf(msg + ": %w", err)\<close> that wraps a cause, and the two sentinel errors of
  the migration package.
\<close>

type_synonym conn = nat

type_synonym operation = nat

datatype error =
    Errorf string
  | Wrapf string error
  | ErrNoLiveMigrationSource
  | ErrNoLiveMigrationTarget

datatype instancetype = Container | VM

text \<open>
  The part of \<^verbatim>\<open>instance.Instance\<close> that the constructors read. Name and project are read
  for the log context only and are left out, as is logging itself.
\<close>

record Instance =
  Type :: instancetype
  IsRunning :: bool

text \<open>
  The environment of a constructor: \<^verbatim>\<open>shared.RandomCryptoString()\<close> (the result of its
  k-th call, counted from 0) and whether \<^verbatim>\<open>exec.LookPath("criu")\<close> finds the tool.
\<close>

record env =
  RandomCryptoString :: "nat \<Rightarrow> error + string"
  LookPath_criu :: bool

text \<open>
  \<^verbatim>\<open>migrationFields\<close>: the fields that the code under study reads and writes. A nil
  connection is \<open>None\<close>; an unset secret is Go's empty string.
\<close>

record migrationFields =
  controlSecret :: string
  controlConn :: "conn option"
  stateSecret :: string
  stateConn :: "conn option"
  fsSecret :: string
  fsConn :: "conn option"
  live :: bool
  instanceOnly :: bool
  inst :: Instance
  allowInconsistent :: bool

text \<open>
  The barrier \<^verbatim>\<open>allConnected\<close> is a canceller; the model keeps whether its
  \<^verbatim>\<open>Done()\<close> channel is closed.
\<close>

record migrationSourceWs = migrationFields +
  allConnected :: bool
  clusterMoveSourceName :: string

text \<open>
  What lies behind \<^verbatim>\<open>url\<close> and \<^verbatim>\<open>dialer\<close>: the outcome of dialling a URL with a
  secret.
\<close>

type_synonym dialer = "string \<Rightarrow> string \<Rightarrow> error + conn"

text \<open>
  The sink. Its barrier exists in push mode only; in pull mode the field is never
  created nor read, and the model keeps it \<open>False\<close>.
\<close>

record migrationSink = migrationFields +
  url :: string
  dialer :: dialer
  sinkAllConnected :: bool
  sinkClusterMoveSourceName :: string
  push :: bool
  refresh :: bool

record migrationSinkArgs =
  argInstance :: Instance
  argInstanceOnly :: bool
  argURL :: string
  argClusterMoveSourceName :: string
  argDialer :: dialer
  argPush :: bool
  argRefresh :: bool
  argLive :: bool
  argSecrets :: "string \<rightharpoonup> string"

text \<open>
  Modelled from the spec: the constants \<^verbatim>\<open>api.SecretNameControl\<close>,
  \<^verbatim>\<open>api.SecretNameFilesystem\<close> and \<^verbatim>\<open>api.SecretNameState\<close> are declared outside
  lxd/migrate_instance.go; the spec names the slots of the secrets table control, filesystem and
  state.
\<close>

definition SecretNameControl :: string where
  "SecretNameControl = ''control''"

definition SecretNameFilesystem :: string where
  "SecretNameFilesystem = ''filesystem''"

definition SecretNameState :: string where
  "SecretNameState = ''state''"

section \<open>Construction\<close>

definition newMigrationSource ::
  "env \<Rightarrow> Instance \<Rightarrow> bool \<Rightarrow> bool \<Rightarrow> bool \<Rightarrow> string \<Rightarrow> error + migrationSourceWs" where
  "newMigrationSource e i stateful only incons moveName =
     (let ret = \<lparr> controlSecret = [], controlConn = None,
                  stateSecret = [], stateConn = None,
                  fsSecret = [], fsConn = None,
                  live = False, instanceOnly = only, inst = i, allowInconsistent = incons,
                  allConnected = False, clusterMoveSourceName = moveName \<rparr>
      in case RandomCryptoString e 0 of
           Inl err \<Rightarrow>
             Inl (Wrapf ''Failed creating migration source secret for control websocket'' err)
         | Inr cs \<Rightarrow>
            (let ret = ret\<lparr>controlSecret := cs\<rparr>
             in case RandomCryptoString e 1 of
                  Inl err \<Rightarrow>
                    Inl (Wrapf ''Failed creating migration source secret for filesystem websocket'' err)
                | Inr fs \<Rightarrow>
                   (let ret = ret\<lparr>fsSecret := fs\<rparr>
                    in if stateful \<and> IsRunning i then
                         (let ret = ret\<lparr>live := True\<rparr>
                          in if Type i = Container then
                               (if \<not> LookPath_criu e then Inl ErrNoLiveMigrationSource
                                else case RandomCryptoString e 2 of
                                       Inl err \<Rightarrow>
                                         Inl (Wrapf ''Failed creating migration source secret for state websocket'' err)
                                     | Inr ss \<Rightarrow> Inr (ret\<lparr>stateSecret := ss\<rparr>))
                             else Inr ret)
                       else Inr ret)))"

text \<open>
  The last step of \<^verbatim>\<open>newMigrationSink\<close>: the capability probe, made for a container
  whatever the liveness, and fatal only for a live session.
\<close>

definition sinkProbe :: "env \<Rightarrow> migrationSink \<Rightarrow> error + migrationSink" where
  "sinkProbe e sink =
     (if Type (inst sink) = Container then
        (if live sink \<and> \<not> LookPath_criu e then Inl ErrNoLiveMigrationTarget else Inr sink)
      else Inr sink)"

definition newMigrationSink :: "env \<Rightarrow> migrationSinkArgs \<Rightarrow> error + migrationSink" where
  "newMigrationSink e args =
     (let sink = \<lparr> controlSecret = [], controlConn = None,
                   stateSecret = [], stateConn = None,
                   fsSecret = [], fsConn = None,
                   live = False, instanceOnly = argInstanceOnly args,
                   inst = argInstance args, allowInconsistent = False,
                   url = argURL args, dialer = argDialer args, sinkAllConnected = False,
                   sinkClusterMoveSourceName = argClusterMoveSourceName args,
                   push = argPush args, refresh = argRefresh args \<rparr>
      in if push sink then
           (case RandomCryptoString e 0 of
              Inl err \<Rightarrow>
                Inl (Wrapf ''Failed creating migration sink secret for control websocket'' err)
            | Inr cs \<Rightarrow>
               (let sink = sink\<lparr>controlSecret := cs\<rparr>
                in case RandomCryptoString e 1 of
                     Inl err \<Rightarrow>
                       Inl (Wrapf ''Failed creating migration sink secret for filesystem websocket'' err)
                   | Inr fs \<Rightarrow>
                      (let sink = sink\<lparr>fsSecret := fs, live := argLive args\<rparr>
                       in if live sink then
                            (case RandomCryptoString e 2 of
                               Inl err \<Rightarrow>
                                 Inl (Wrapf ''Failed creating migration sink secret for state websocket'' err)
                             | Inr ss \<Rightarrow> sinkProbe e (sink\<lparr>stateSecret := ss\<rparr>))
                          else sinkProbe e sink)))
         else
           (case argSecrets args SecretNameControl of
              None \<Rightarrow> Inl (Errorf ''Missing migration sink secret for control websocket'')
            | Some cs \<Rightarrow>
               (case argSecrets args SecretNameFilesystem of
                  None \<Rightarrow> Inl (Errorf ''Missing migration sink secret for filesystem websocket'')
                | Some fs \<Rightarrow>
                   (let ok = (argSecrets args SecretNameState \<noteq> None);
                        ss = (case argSecrets args SecretNameState of None \<Rightarrow> [] | Some x \<Rightarrow> x)
                    in sinkProbe e
                         (sink\<lparr>controlSecret := cs, fsSecret := fs, stateSecret := ss,
                                live := (ok \<or> argLive args)\<rparr>)))))"

section \<open>Channels, callbacks and the trace of a session\<close>

datatype role = Control | Filesystem | State

text \<open>
  What a session does to the outside world, in the order it does it: cancelling the
  barrier, dialling a URL with a secret, a best-effort notification on the control
  connection, closing a connection, a message written to or read from the control
  connection, and handing the operation to the instance.
\<close>

datatype io =
    Cancel
  | Dial string string
  | Notify conn error
  | Close conn
  | ControlWrite
  | ControlRead
  | SetOperation operation

datatype WebsocketIO = WebsocketIO (Conn: conn)

text \<open>
  \<^verbatim>\<open>instance.MigrateArgs\<close>. The closures of the source capture the session pointer and
  read its fields when they are called, so a closure is a function of the session at
  the time of the call; the closures that act return the calls they make.
\<close>

record 's MigrateArgs =
  ControlSend :: "'s \<Rightarrow> io list"
  ControlReceive :: "'s \<Rightarrow> io list"
  StateConn :: "'s \<Rightarrow> WebsocketIO option"
  FilesystemConn :: "'s \<Rightarrow> WebsocketIO option"
  Snapshots :: bool
  Live :: bool
  Disconnect :: "'s \<Rightarrow> io list"
  ClusterMoveSourceName :: string

record 's MigrateSendArgs = "'s MigrateArgs" +
  AllowInconsistent :: bool

record 's MigrateReceiveArgs = "'s MigrateArgs" +
  InstanceOperation :: operation
  Refresh :: bool

text \<open>The trace of a session: its calls, and each invocation of the driver with its arguments.\<close>

datatype 's event =
    IO io
  | MigrateSend "'s MigrateSendArgs"
  | MigrateReceive "'s MigrateReceiveArgs"

text \<open>
  The instance driver is an external collaborator that acts on the session through the
  callbacks of its arguments only: a run of it is the sequence of callbacks it invokes
  and the error it returns (\<open>None\<close> for nil).
\<close>

datatype callback =
    CallControlSend
  | CallControlReceive
  | CallStateConn
  | CallFilesystemConn
  | CallDisconnect

record driver =
  calls :: "callback list"
  result :: "error option"

fun invoke :: "('s, 'x) MigrateArgs_scheme \<Rightarrow> 's \<Rightarrow> callback \<Rightarrow> io list" where
  "invoke a s CallControlSend = ControlSend a s"
| "invoke a s CallControlReceive = ControlReceive a s"
| "invoke a s CallStateConn = []"
| "invoke a s CallFilesystemConn = []"
| "invoke a s CallDisconnect = Disconnect a s"

definition runDriver :: "('s, 'x) MigrateArgs_scheme \<Rightarrow> 's \<Rightarrow> driver \<Rightarrow> io list" where
  "runDriver a s drv = concat (map (invoke a s) (calls drv))"

subsection \<open>Methods declared in lxd/migrate.go\<close>

text \<open>
  Modelled from the spec: \<^verbatim>\<open>send\<close> and \<^verbatim>\<open>recv\<close> (declared in lxd/migrate.go, whose source is absent). The spec asks
  of them "send(message)" and "receive() \<rightarrow> message" on the control channel, no more.
\<close>

definition send :: "'a migrationFields_scheme \<Rightarrow> io list" where
  "send s = [ControlWrite]"

definition recv :: "'a migrationFields_scheme \<Rightarrow> io list" where
  "recv s = [ControlRead]"

text \<open>
  Modelled from the spec: \<^verbatim>\<open>disconnect()\<close> (declared in lxd/migrate.go, whose source is absent). "Idempotent;
  closes every non-nil bound connection exactly once regardless of how many times
  invoked": a bound connection that the trace shows closed is left alone.
\<close>

definition closeOnce :: "conn option \<Rightarrow> 's event list \<Rightarrow> 's event list" where
  "closeOnce c tr =
     (case c of
        None \<Rightarrow> tr
      | Some k \<Rightarrow> if IO (Close k) \<in> set tr then tr else tr @ [IO (Close k)])"

definition disconnect :: "'a migrationFields_scheme \<Rightarrow> 's event list \<Rightarrow> 's event list" where
  "disconnect s tr = closeOnce (stateConn s) (closeOnce (fsConn s) (closeOnce (controlConn s) tr))"

text \<open>
  Modelled from the spec: \<^verbatim>\<open>sendControl(err)\<close> (declared in lxd/migrate.go, whose source is absent). "Best-effort
  control-channel notification ... is fire-and-forget: its own failure is never treated
  as fatal and never masks the original error": it notifies over the control
  connection when there is one and returns nothing.
\<close>

definition sendControl :: "'a migrationFields_scheme \<Rightarrow> error \<Rightarrow> 's event list \<Rightarrow> 's event list" where
  "sendControl s err tr =
     (case controlConn s of None \<Rightarrow> tr | Some k \<Rightarrow> tr @ [IO (Notify k err)])"

text \<open>
  Modelled from the spec: \<^verbatim>\<open>connectWithSecret(secret)\<close> (declared in lxd/migrate.go, whose source is absent). "Pull
  = local side dials remote endpoints using supplied secrets": one dial of the sink's
  URL with the secret, through the sink's dialer.
\<close>

definition connectWithSecret ::
  "migrationSink \<Rightarrow> string \<Rightarrow> 's event list \<Rightarrow> (error + conn) \<times> 's event list" where
  "connectWithSecret c secret tr = (dialer c (url c) secret, tr @ [IO (Dial (url c) secret)])"

text \<open>
  Modelled from the spec: the channel barrier's \<^verbatim>\<open>bind(role, conn)\<close> (the connection
  handlers of lxd/migrate.go, whose source is absent). It "records the connection and, once all
  required roles are bound, signals completion"; the required channels are control and
  filesystem, and state when "live transfer is requested and the workload is a
  container". The handlers run concurrently with \<^verbatim>\<open>Do()\<close>; the model takes the binds
  that complete before the 10-second timer fires, in the order they complete.
\<close>

definition required :: "'a migrationFields_scheme \<Rightarrow> role list" where
  "required s =
     [Control, Filesystem] @ (if live s \<and> Type (inst s) = Container then [State] else [])"

fun connOf :: "role \<Rightarrow> 'a migrationFields_scheme \<Rightarrow> conn option" where
  "connOf Control s = controlConn s"
| "connOf Filesystem s = fsConn s"
| "connOf State s = stateConn s"

fun setConn :: "role \<Rightarrow> conn \<Rightarrow> 'a migrationFields_scheme \<Rightarrow> 'a migrationFields_scheme" where
  "setConn Control k s = s\<lparr>controlConn := Some k\<rparr>"
| "setConn Filesystem k s = s\<lparr>fsConn := Some k\<rparr>"
| "setConn State k s = s\<lparr>stateConn := Some k\<rparr>"

definition allBound :: "'a migrationFields_scheme \<Rightarrow> bool" where
  "allBound s = list_all (\<lambda>r. connOf r s \<noteq> None) (required s)"

definition bindSource :: "migrationSourceWs \<Rightarrow> role \<times> conn \<Rightarrow> migrationSourceWs" where
  "bindSource s b =
     (let s' = setConn (fst b) (snd b) s
      in if allBound s' then s'\<lparr>allConnected := True\<rparr> else s')"

definition bindSink :: "migrationSink \<Rightarrow> role \<times> conn \<Rightarrow> migrationSink" where
  "bindSink c b =
     (let c' = setConn (fst b) (snd b) c
      in if allBound c' then c'\<lparr>sinkAllConnected := True\<rparr> else c')"

section \<open>Do() of the source\<close>

text \<open>The closures that \<^verbatim>\<open>Do()\<close> builds: the two accessors and the Disconnect callback.\<close>

definition stateConnFunc :: "'a migrationFields_scheme \<Rightarrow> WebsocketIO option" where
  "stateConnFunc s = (case stateConn s of None \<Rightarrow> None | Some k \<Rightarrow> Some (WebsocketIO k))"

definition filesystemConnFunc :: "'a migrationFields_scheme \<Rightarrow> WebsocketIO option" where
  "filesystemConnFunc s = (case fsConn s of None \<Rightarrow> None | Some k \<Rightarrow> Some (WebsocketIO k))"

definition disconnectFunc :: "'a migrationFields_scheme \<Rightarrow> io list" where
  "disconnectFunc s =
     (case fsConn s of None \<Rightarrow> [] | Some k \<Rightarrow> [Close k]) @
     (case stateConn s of None \<Rightarrow> [] | Some k \<Rightarrow> [Close k])"

definition sourceArgs :: "migrationSourceWs \<Rightarrow> migrationSourceWs MigrateSendArgs" where
  "sourceArgs s =
     \<lparr> ControlSend = send, ControlReceive = recv,
       StateConn = stateConnFunc, FilesystemConn = filesystemConnFunc,
       Snapshots = (\<not> instanceOnly s), Live = live s,
       Disconnect = disconnectFunc,
       ClusterMoveSourceName = clusterMoveSourceName s,
       AllowInconsistent = allowInconsistent s \<rparr>"

text \<open>
  \<^verbatim>\<open>migrationSourceWs.Do\<close>. The \<^verbatim>\<open>select\<close> takes the barrier's branch when the binds that
  arrive in time close it, and the timer's branch otherwise. \<^verbatim>\<open>defer s.disconnect()\<close>
  is registered after the \<^verbatim>\<open>select\<close>, so it runs on the returns that follow it.
\<close>

definition migrationSourceWs_Do ::
  "migrationSourceWs \<Rightarrow> (role \<times> conn) list \<Rightarrow> operation \<Rightarrow> driver \<Rightarrow>
   migrationSourceWs event list \<Rightarrow>
   error option \<times> migrationSourceWs \<times> migrationSourceWs event list" where
  "migrationSourceWs_Do s0 arrivals migrateOp drv tr =
     (let s = foldl bindSource s0 arrivals
      in if \<not> allConnected s then
           (Some (Errorf ''Timed out waiting for migration connections''),
            s\<lparr>allConnected := True\<rparr>, tr @ [IO Cancel])
         else
           (let a = sourceArgs s;
                tr1 = tr @ [IO (SetOperation migrateOp), MigrateSend a] @ map IO (runDriver a s drv);
                err = (case result drv of
                         None \<Rightarrow> None
                       | Some e \<Rightarrow> Some (Wrapf ''Failed migration on source'' e))
            in (err, s, disconnect s tr1)))"

section \<open>Do() of the sink\<close>

definition sinkArgs :: "migrationSink \<Rightarrow> operation \<Rightarrow> migrationSink MigrateReceiveArgs" where
  "sinkArgs c instOp =
     \<lparr> ControlSend = send, ControlReceive = recv,
       StateConn = stateConnFunc, FilesystemConn = filesystemConnFunc,
       Snapshots = (\<not> instanceOnly c), Live = live c,
       Disconnect = disconnectFunc,
       ClusterMoveSourceName = sinkClusterMoveSourceName c,
       InstanceOperation = instOp, Refresh = refresh c \<rparr>"

text \<open>
  The tail of \<^verbatim>\<open>migrationSink.Do\<close>, reached with \<^verbatim>\<open>defer c.disconnect()\<close> registered:
  the driver's MigrateReceive, the wrapping of its error, and the deferred teardown.
\<close>

definition sinkReceive ::
  "migrationSink \<Rightarrow> operation \<Rightarrow> driver \<Rightarrow> migrationSink event list \<Rightarrow>
   error option \<times> migrationSink \<times> migrationSink event list" where
  "sinkReceive c instOp drv tr =
     (let a = sinkArgs c instOp;
          tr1 = tr @ [MigrateReceive a] @ map IO (runDriver a c drv);
          err = (case result drv of
                   None \<Rightarrow> None
                 | Some e \<Rightarrow> Some (Wrapf ''Failed migration on target'' e))
      in (err, c, disconnect c tr1))"

text \<open>
  \<^verbatim>\<open>migrationSink.Do\<close>. In push mode the barrier is awaited as in the source. In pull mode
  the three dials follow one another; an assignment \<^verbatim>\<open>c.xConn, err = ...\<close> of a failed
  dial leaves the field nil. \<^verbatim>\<open>defer c.disconnect()\<close> is registered after the barrier
  (push) or after the control dial (pull).
\<close>

definition migrationSink_Do ::
  "migrationSink \<Rightarrow> (role \<times> conn) list \<Rightarrow> operation \<Rightarrow> driver \<Rightarrow>
   migrationSink event list \<Rightarrow>
   error option \<times> migrationSink \<times> migrationSink event list" where
  "migrationSink_Do c0 arrivals instOp drv tr =
     (if push c0 then
        (let c = foldl bindSink c0 arrivals
         in if \<not> sinkAllConnected c then
              (Some (Errorf ''Timed out waiting for migration connections''),
               c\<lparr>sinkAllConnected := True\<rparr>, tr @ [IO Cancel])
            else sinkReceive c instOp drv tr)
      else
        (case connectWithSecret c0 (controlSecret c0) tr of
           (Inl e, tr1) \<Rightarrow>
             (Some (Wrapf ''Failed connecting migration control sink socket'' e),
              c0\<lparr>controlConn := None\<rparr>, tr1)
         | (Inr k1, tr1) \<Rightarrow>
            (let c1 = c0\<lparr>controlConn := Some k1\<rparr>
             in case connectWithSecret c1 (fsSecret c1) tr1 of
                  (Inl e, tr2) \<Rightarrow>
                    (let err = Wrapf ''Failed connecting migration filesystem sink socket'' e;
                         c2 = c1\<lparr>fsConn := None\<rparr>
                     in (Some err, c2, disconnect c2 (sendControl c2 err tr2)))
                | (Inr k2, tr2) \<Rightarrow>
                   (let c2 = c1\<lparr>fsConn := Some k2\<rparr>
                    in if live c2 \<and> Type (inst c2) = Container then
                         (case connectWithSecret c2 (stateSecret c2) tr2 of
                            (Inl e, tr3) \<Rightarrow>
                              (let err = Wrapf ''Failed connecting migration state sink socket'' e;
                                   c3 = c2\<lparr>stateConn := None\<rparr>
                               in (Some err, c3, disconnect c3 (sendControl c3 err tr3)))
                          | (Inr k3, tr3) \<Rightarrow>
                              sinkReceive (c2\<lparr>stateConn := Some k3\<rparr>) instOp drv tr3)
                       else sinkReceive c2 instOp drv tr2))))"

section \<open>Reading a trace\<close>

fun isInvocation :: "'s event \<Rightarrow> bool" where
  "isInvocation (IO x) = False"
| "isInvocation (MigrateSend a) = True"
| "isInvocation (MigrateReceive a) = True"

text \<open>The invocations of the driver in a trace, and the secrets dialled, both in order.\<close>

definition invocations :: "'s event list \<Rightarrow> 's event list" where
  "invocations tr = filter isInvocation tr"

fun dialled :: "'s event list \<Rightarrow> string list" where
  "dialled [] = []"
| "dialled (IO (Dial u x) # tr) = x # dialled tr"
| "dialled (ev # tr) = dialled tr"

section \<open>Concrete hosts, workloads and sessions\<close>

definition tokens :: "nat \<Rightarrow> error + string" where
  "tokens k = (if k = 0 then Inr ''c1'' else if k = 1 then Inr ''f1'' else Inr ''s1'')"

definition hostWithCriu :: env where
  "hostWithCriu = \<lparr> RandomCryptoString = tokens, LookPath_criu = True \<rparr>"

definition hostWithoutCriu :: env where
  "hostWithoutCriu = \<lparr> RandomCryptoString = tokens, LookPath_criu = False \<rparr>"

definition runningContainer :: Instance where
  "runningContainer = \<lparr> Type = Container, IsRunning = True \<rparr>"

definition runningVM :: Instance where
  "runningVM = \<lparr> Type = VM, IsRunning = True \<rparr>"

text \<open>A peer that accepts the secrets c1, f1 and s1 and refuses any other.\<close>

definition peer :: dialer where
  "peer u x =
     (if x = ''c1'' then Inr 1 else if x = ''f1'' then Inr 2 else if x = ''s1'' then Inr 3
      else Inl (Errorf ''refused''))"

definition twoSecrets :: "string \<rightharpoonup> string" where
  "twoSecrets = [SecretNameControl \<mapsto> ''c1'', SecretNameFilesystem \<mapsto> ''f1'']"

definition pullArgs :: "Instance \<Rightarrow> bool \<Rightarrow> (string \<rightharpoonup> string) \<Rightarrow> migrationSinkArgs" where
  "pullArgs i l tab =
     \<lparr> argInstance = i, argInstanceOnly = False, argURL = ''https://peer'',
       argClusterMoveSourceName = [], argDialer = peer, argPush = False,
       argRefresh = False, argLive = l, argSecrets = tab \<rparr>"

definition pushArgs :: "Instance \<Rightarrow> bool \<Rightarrow> migrationSinkArgs" where
  "pushArgs i l =
     \<lparr> argInstance = i, argInstanceOnly = False, argURL = [],
       argClusterMoveSourceName = [], argDialer = peer, argPush = True,
       argRefresh = False, argLive = l, argSecrets = Map.empty \<rparr>"

text \<open>A source, a push-mode sink and a pull-mode sink as their constructors leave them.\<close>

definition freshSource :: migrationSourceWs where
  "freshSource =
     \<lparr> controlSecret = ''c1'', controlConn = None, stateSecret = [], stateConn = None,
       fsSecret = ''f1'', fsConn = None, live = False, instanceOnly = False,
       inst = runningContainer, allowInconsistent = False,
       allConnected = False, clusterMoveSourceName = [] \<rparr>"

definition freshPushSink :: migrationSink where
  "freshPushSink =
     \<lparr> controlSecret = ''c1'', controlConn = None, stateSecret = [], stateConn = None,
       fsSecret = ''f1'', fsConn = None, live = False, instanceOnly = False,
       inst = runningContainer, allowInconsistent = False,
       url = [], dialer = peer, sinkAllConnected = False,
       sinkClusterMoveSourceName = [], push = True, refresh = False \<rparr>"

definition freshPullSink :: "bool \<Rightarrow> string \<Rightarrow> migrationSink" where
  "freshPullSink l ss =
     \<lparr> controlSecret = ''c1'', controlConn = None, stateSecret = ss, stateConn = None,
       fsSecret = ''f1'', fsConn = None, live = l, instanceOnly = False,
       inst = runningContainer, allowInconsistent = False,
       url = ''https://peer'', dialer = peer, sinkAllConnected = False,
       sinkClusterMoveSourceName = [], push = False, refresh = False \<rparr>"

text \<open>A driver that calls the Disconnect callback once and returns nil.\<close>

definition quietDriver :: driver where
  "quietDriver = \<lparr> calls = [CallDisconnect], result = None \<rparr>"

section \<open>The barrier\<close>

lemma setConn_static [simp]:
  "live (setConn r k s) = live s"
  "inst (setConn r k s) = inst s"
  "instanceOnly (setConn r k s) = instanceOnly s"
  "allowInconsistent (setConn r k s) = allowInconsistent s"
  "migrationFields.more (setConn r k s) = migrationFields.more s"
  by (cases r; simp)+

lemma connOf_setConn: "connOf r' (setConn r k s) = (if r' = r then Some k else connOf r' s)"
  by (cases r; cases r'; simp)

lemma required_setConn [simp]: "required (setConn r k s) = required s"
  by (simp add: required_def)

lemma allBound_setConn: "allBound s \<Longrightarrow> allBound (setConn r k s)"
  by (simp add: allBound_def list_all_iff connOf_setConn)

lemma connOf_allConnected [simp]:
  "connOf r (s\<lparr>allConnected := b\<rparr>) = connOf r s"
  "connOf r (c\<lparr>sinkAllConnected := b\<rparr>) = connOf r c"
  by (cases r; simp)+

lemma allBound_allConnected [simp]:
  "allBound (s\<lparr>allConnected := b\<rparr>) = allBound s"
  "allBound (c\<lparr>sinkAllConnected := b\<rparr>) = allBound c"
  by (simp_all add: allBound_def required_def)

lemma setConn_own [simp]:
  "allConnected (setConn r k s) = allConnected s"
  "clusterMoveSourceName (setConn r k s) = clusterMoveSourceName s"
  "sinkAllConnected (setConn r k c) = sinkAllConnected c"
  "sinkClusterMoveSourceName (setConn r k c) = sinkClusterMoveSourceName c"
  "push (setConn r k c) = push c"
  "refresh (setConn r k c) = refresh c"
  "url (setConn r k c) = url c"
  "dialer (setConn r k c) = dialer c"
  by (cases r; simp)+

lemma bindSource_static [simp]:
  "live (bindSource s b) = live s"
  "inst (bindSource s b) = inst s"
  "instanceOnly (bindSource s b) = instanceOnly s"
  "allowInconsistent (bindSource s b) = allowInconsistent s"
  "clusterMoveSourceName (bindSource s b) = clusterMoveSourceName s"
  by (simp_all add: bindSource_def Let_def)

lemma bindSink_static [simp]:
  "live (bindSink c b) = live c"
  "inst (bindSink c b) = inst c"
  "instanceOnly (bindSink c b) = instanceOnly c"
  "push (bindSink c b) = push c"
  "refresh (bindSink c b) = refresh c"
  "sinkClusterMoveSourceName (bindSink c b) = sinkClusterMoveSourceName c"
  by (simp_all add: bindSink_def Let_def)

lemma foldl_bindSource_static [simp]:
  "live (foldl bindSource s arr) = live s"
  "inst (foldl bindSource s arr) = inst s"
  "instanceOnly (foldl bindSource s arr) = instanceOnly s"
  "allowInconsistent (foldl bindSource s arr) = allowInconsistent s"
  "clusterMoveSourceName (foldl bindSource s arr) = clusterMoveSourceName s"
  by (induction arr arbitrary: s; simp)+

lemma foldl_bindSink_static [simp]:
  "live (foldl bindSink c arr) = live c"
  "inst (foldl bindSink c arr) = inst c"
  "instanceOnly (foldl bindSink c arr) = instanceOnly c"
  "push (foldl bindSink c arr) = push c"
  "refresh (foldl bindSink c arr) = refresh c"
  "sinkClusterMoveSourceName (foldl bindSink c arr) = sinkClusterMoveSourceName c"
  by (induction arr arbitrary: c; simp)+

lemma bindSource_allBound: "allBound s \<Longrightarrow> allBound (bindSource s b)"
  by (simp add: bindSource_def Let_def allBound_setConn)

lemma bindSink_allBound: "allBound c \<Longrightarrow> allBound (bindSink c b)"
  by (simp add: bindSink_def Let_def allBound_setConn)



lemma bindSource_done: "allConnected (bindSource s b) \<Longrightarrow> allConnected s \<or> allBound (bindSource s b)"
  by (simp add: bindSource_def Let_def split: if_splits)

lemma bindSink_done: "sinkAllConnected (bindSink c b) \<Longrightarrow> sinkAllConnected c \<or> allBound (bindSink c b)"
  by (simp add: bindSink_def Let_def split: if_splits)



lemma source_barrier_pending:
  "\<not> allConnected s \<Longrightarrow> \<not> allBound (foldl bindSource s arr) \<Longrightarrow>
   \<not> allConnected (foldl bindSource s arr)"
proof (induction arr rule: rev_induct)
  case Nil
  then show ?case by simp
next
  case (snoc b arr)
  have "\<not> allBound (foldl bindSource s arr)"
    using snoc.prems(2) bindSource_allBound [of "foldl bindSource s arr" b] by auto
  then have "\<not> allConnected (foldl bindSource s arr)"
    using snoc.IH snoc.prems(1) by simp
  then show ?case
    using snoc.prems(2) bindSource_done [of "foldl bindSource s arr" b] by auto
qed

lemma sink_barrier_pending:
  "\<not> sinkAllConnected c \<Longrightarrow> \<not> allBound (foldl bindSink c arr) \<Longrightarrow>
   \<not> sinkAllConnected (foldl bindSink c arr)"
proof (induction arr rule: rev_induct)
  case Nil
  then show ?case by simp
next
  case (snoc b arr)
  have "\<not> allBound (foldl bindSink c arr)"
    using snoc.prems(2) bindSink_allBound [of "foldl bindSink c arr" b] by auto
  then have "\<not> sinkAllConnected (foldl bindSink c arr)"
    using snoc.IH snoc.prems(1) by simp
  then show ?case
    using snoc.prems(2) bindSink_done [of "foldl bindSink c arr" b] by auto
qed

section \<open>Construction: capability, secrets and liveness\<close>

lemmas host_defs = hostWithCriu_def hostWithoutCriu_def tokens_def runningContainer_def runningVM_def
lemmas args_defs = pullArgs_def pushArgs_def twoSecrets_def peer_def
  SecretNameControl_def SecretNameFilesystem_def SecretNameState_def

text \<open>
  C4. When the session is live, the workload is a container and the capability probe
  fails, no constructor produces a session, and the error is the capability-missing one:
  \<open>ErrNoLiveMigrationSource\<close> from \<open>newMigrationSource\<close>, \<open>ErrNoLiveMigrationTarget\<close> from
  \<open>newMigrationSink\<close> in push and in pull mode. A session is live once the constructor has
  set its flag, which it does after it has obtained the control and filesystem secrets;
  the error is stated for the constructions that get that far (and, for the push-mode
  sink, mint the state secret, which precedes the probe). That no session is produced
  holds without these provisos.
\<close>

theorem capability_probe_failure:
  assumes "\<not> LookPath_criu e"
  shows "(stateful \<and> IsRunning i \<and> Type i = Container \<longrightarrow>
           (\<forall>s. newMigrationSource e i stateful only incons nm \<noteq> Inr s) \<and>
           (RandomCryptoString e 0 = Inr cs \<and> RandomCryptoString e 1 = Inr fs \<longrightarrow>
              newMigrationSource e i stateful only incons nm = Inl ErrNoLiveMigrationSource))
       \<and> (argPush a \<and> argLive a \<and> Type (argInstance a) = Container \<longrightarrow>
           (\<forall>c. newMigrationSink e a \<noteq> Inr c) \<and>
           (RandomCryptoString e 0 = Inr cs \<and> RandomCryptoString e 1 = Inr fs \<and>
            RandomCryptoString e 2 = Inr ss \<longrightarrow>
              newMigrationSink e a = Inl ErrNoLiveMigrationTarget))
       \<and> (\<not> argPush a \<and> (argSecrets a SecretNameState \<noteq> None \<or> argLive a) \<and>
          Type (argInstance a) = Container \<longrightarrow>
           (\<forall>c. newMigrationSink e a \<noteq> Inr c) \<and>
           (argSecrets a SecretNameControl \<noteq> None \<and> argSecrets a SecretNameFilesystem \<noteq> None \<longrightarrow>
              newMigrationSink e a = Inl ErrNoLiveMigrationTarget))"
proof (intro conjI impI allI)
  assume "stateful \<and> IsRunning i \<and> Type i = Container"
  then show "newMigrationSource e i stateful only incons nm \<noteq> Inr s" for s
    using assms by (simp add: newMigrationSource_def Let_def split: sum.splits)
next
  assume "stateful \<and> IsRunning i \<and> Type i = Container"
    and "RandomCryptoString e 0 = Inr cs \<and> RandomCryptoString e 1 = Inr fs"
  then show "newMigrationSource e i stateful only incons nm = Inl ErrNoLiveMigrationSource"
    using assms by (simp add: newMigrationSource_def Let_def)
next
  assume "argPush a \<and> argLive a \<and> Type (argInstance a) = Container"
  then show "newMigrationSink e a \<noteq> Inr c" for c
    using assms by (simp add: newMigrationSink_def sinkProbe_def Let_def split: sum.splits)
next
  assume "argPush a \<and> argLive a \<and> Type (argInstance a) = Container"
    and "RandomCryptoString e 0 = Inr cs \<and> RandomCryptoString e 1 = Inr fs \<and>
         RandomCryptoString e 2 = Inr ss"
  then show "newMigrationSink e a = Inl ErrNoLiveMigrationTarget"
    using assms by (simp add: newMigrationSink_def sinkProbe_def Let_def)
next
  assume "\<not> argPush a \<and> (argSecrets a SecretNameState \<noteq> None \<or> argLive a) \<and>
          Type (argInstance a) = Container"
  then show "newMigrationSink e a \<noteq> Inr c" for c
    using assms by (auto simp: newMigrationSink_def sinkProbe_def Let_def split: option.splits)
next
  assume "\<not> argPush a \<and> (argSecrets a SecretNameState \<noteq> None \<or> argLive a) \<and>
          Type (argInstance a) = Container"
    and "argSecrets a SecretNameControl \<noteq> None \<and> argSecrets a SecretNameFilesystem \<noteq> None"
  then show "newMigrationSink e a = Inl ErrNoLiveMigrationTarget"
    using assms by (auto simp: newMigrationSink_def sinkProbe_def Let_def split: option.splits)
qed

theorem capability_probe_failure_witness:
  "\<not> LookPath_criu hostWithoutCriu \<and>
   newMigrationSource hostWithoutCriu runningContainer True False False [] =
     Inl ErrNoLiveMigrationSource \<and>
   newMigrationSink hostWithoutCriu (pushArgs runningContainer True) =
     Inl ErrNoLiveMigrationTarget \<and>
   newMigrationSink hostWithoutCriu (pullArgs runningContainer False (twoSecrets(SecretNameState \<mapsto> ''s1''))) =
     Inl ErrNoLiveMigrationTarget"
proof -
  have h: "\<not> LookPath_criu hostWithoutCriu"
    by (simp add: hostWithoutCriu_def)
  have src: "newMigrationSource hostWithoutCriu runningContainer True False False [] =
     Inl ErrNoLiveMigrationSource"
    using capability_probe_failure [OF h, where stateful = True and i = runningContainer
        and cs = "''c1''" and fs = "''f1''"]
    by (simp add: host_defs)
  have psh: "newMigrationSink hostWithoutCriu (pushArgs runningContainer True) =
     Inl ErrNoLiveMigrationTarget"
    using capability_probe_failure [OF h, where a = "pushArgs runningContainer True"
        and cs = "''c1''" and fs = "''f1''" and ss = "''s1''"]
    by (simp add: host_defs args_defs)
  have pll: "newMigrationSink hostWithoutCriu
       (pullArgs runningContainer False (twoSecrets(SecretNameState \<mapsto> ''s1''))) =
     Inl ErrNoLiveMigrationTarget"
    using capability_probe_failure [OF h,
        where a = "pullArgs runningContainer False (twoSecrets(SecretNameState \<mapsto> ''s1''))"]
    by (simp add: host_defs args_defs)
  show ?thesis using h src psh pll by simp
qed

lemmas session_defs = freshSource_def freshPushSink_def freshPullSink_def





section \<open>Traces of Do()\<close>

lemma invocations_append [simp]: "invocations (a @ b) = invocations a @ invocations b"
  by (simp add: invocations_def)

lemma invocations_IO [simp]: "invocations (map IO xs) = []"
  by (induction xs) (simp_all add: invocations_def)

lemma invocations_Cons [simp]:
  "invocations (IO x # tr) = invocations tr"
  "invocations (MigrateSend a # tr) = MigrateSend a # invocations tr"
  "invocations (MigrateReceive b # tr) = MigrateReceive b # invocations tr"
  "invocations [] = []"
  by (simp_all add: invocations_def)

lemma invocations_closeOnce [simp]: "invocations (closeOnce c tr) = invocations tr"
  by (simp add: closeOnce_def split: option.splits)

lemma invocations_disconnect [simp]: "invocations (disconnect s tr) = invocations tr"
  by (simp add: disconnect_def)

lemma invocations_sendControl [simp]: "invocations (sendControl s err tr) = invocations tr"
  by (simp add: sendControl_def split: option.splits)

lemma dialled_append [simp]: "dialled (a @ b) = dialled a @ dialled b"
  by (induction a rule: dialled.induct) simp_all

lemma dialled_closeOnce [simp]: "dialled (closeOnce c tr) = dialled tr"
  by (simp add: closeOnce_def split: option.splits)

lemma dialled_disconnect [simp]: "dialled (disconnect s tr) = dialled tr"
  by (simp add: disconnect_def)

lemma dialled_sendControl [simp]: "dialled (sendControl s err tr) = dialled tr"
  by (simp add: sendControl_def split: option.splits)

lemma dialled_closes: "dialled (map IO (disconnectFunc s)) = []"
  by (simp add: disconnectFunc_def split: option.splits)

lemma dialled_sink_callback: "dialled (map IO (invoke (sinkArgs c instOp) s cb)) = []"
  by (cases cb) (simp_all add: sinkArgs_def send_def recv_def dialled_closes)

lemma dialled_sink_callbacks:
  "dialled (map IO (concat (map (invoke (sinkArgs c instOp) s) cbs))) = []"
  by (induction cbs) (simp_all add: dialled_sink_callback)

lemma dialled_sink_driver [simp]: "dialled (map IO (runDriver (sinkArgs c instOp) s drv)) = []"
  by (simp add: runDriver_def dialled_sink_callbacks)

lemma closeOnce_keeps: "x \<in> set tr \<Longrightarrow> x \<in> set (closeOnce c tr)"
  by (simp add: closeOnce_def split: option.splits)

lemma closeOnce_closes: "IO (Close k) \<in> set (closeOnce (Some k) tr)"
  by (simp add: closeOnce_def)

lemma disconnect_closes: "connOf r s = Some k \<Longrightarrow> IO (Close k) \<in> set (disconnect s tr)"
  by (cases r) (simp_all add: disconnect_def closeOnce_keeps closeOnce_closes)

lemmas bind_defs = bindSource_def bindSink_def allBound_def required_def

lemmas do_defs = migrationSourceWs_Do_def migrationSink_Do_def sinkReceive_def
  connectWithSecret_def sendControl_def disconnect_def closeOnce_def runDriver_def
  sourceArgs_def sinkArgs_def disconnectFunc_def quietDriver_def Let_def

lemma source_Do_teardown:
  "allConnected (foldl bindSource s arr) \<Longrightarrow>
   migrationSourceWs_Do s arr migrateOp drv tr =
     (map_option (Wrapf ''Failed migration on source'') (result drv), foldl bindSource s arr,
      disconnect (foldl bindSource s arr)
        (tr @ [IO (SetOperation migrateOp), MigrateSend (sourceArgs (foldl bindSource s arr))] @
         map IO (runDriver (sourceArgs (foldl bindSource s arr)) (foldl bindSource s arr) drv)))"
  by (simp add: migrationSourceWs_Do_def Let_def split: option.splits)

lemma sinkReceive_teardown:
  "sinkReceive c instOp drv tr =
     (map_option (Wrapf ''Failed migration on target'') (result drv), c,
      disconnect c (tr @ [MigrateReceive (sinkArgs c instOp)] @
                    map IO (runDriver (sinkArgs c instOp) c drv)))"
  by (simp add: sinkReceive_def Let_def split: option.splits)

lemma push_Do_teardown:
  "push c \<Longrightarrow> sinkAllConnected (foldl bindSink c arr) \<Longrightarrow>
   migrationSink_Do c arr instOp drv tr = sinkReceive (foldl bindSink c arr) instOp drv tr"
  by (simp add: migrationSink_Do_def)

lemma pull_Do_teardown:
  assumes "\<not> push c" and "dialer c (url c) (controlSecret c) = Inr k1"
    and "migrationSink_Do c arr instOp drv tr = (err, c', tr')"
  shows "\<exists>tr0. tr' = disconnect c' tr0"
  using assms
  by (auto simp: migrationSink_Do_def connectWithSecret_def Let_def sinkReceive_teardown
      split: sum.splits if_splits)

section \<open>The barrier's timeout and the teardown\<close>

text \<open>
  C3. In the source and in the push-mode sink, when the barrier is open at entry and the
  binds that complete within the timeout leave a required channel unbound, \<open>Do()\<close>
  cancels the barrier and returns the timeout error, and the driver is not invoked: the
  trace grows by the cancellation alone.
\<close>

theorem barrier_timeout:
  "(\<not> allConnected s \<and> \<not> allBound (foldl bindSource s arr) \<longrightarrow>
      migrationSourceWs_Do s arr migrateOp drv tr =
        (Some (Errorf ''Timed out waiting for migration connections''),
         (foldl bindSource s arr)\<lparr>allConnected := True\<rparr>, tr @ [IO Cancel]) \<and>
      invocations (snd (snd (migrationSourceWs_Do s arr migrateOp drv tr))) = invocations tr)
   \<and> (push c \<and> \<not> sinkAllConnected c \<and> \<not> allBound (foldl bindSink c arr') \<longrightarrow>
      migrationSink_Do c arr' instOp drv tr' =
        (Some (Errorf ''Timed out waiting for migration connections''),
         (foldl bindSink c arr')\<lparr>sinkAllConnected := True\<rparr>, tr' @ [IO Cancel]) \<and>
      invocations (snd (snd (migrationSink_Do c arr' instOp drv tr'))) = invocations tr')"
proof (intro conjI impI)
  assume h: "\<not> allConnected s \<and> \<not> allBound (foldl bindSource s arr)"
  then have "\<not> allConnected (foldl bindSource s arr)"
    by (simp add: source_barrier_pending)
  then show src: "migrationSourceWs_Do s arr migrateOp drv tr =
        (Some (Errorf ''Timed out waiting for migration connections''),
         (foldl bindSource s arr)\<lparr>allConnected := True\<rparr>, tr @ [IO Cancel])"
    by (simp add: migrationSourceWs_Do_def)
  show "invocations (snd (snd (migrationSourceWs_Do s arr migrateOp drv tr))) = invocations tr"
    by (simp add: src)
next
  assume h: "push c \<and> \<not> sinkAllConnected c \<and> \<not> allBound (foldl bindSink c arr')"
  then have "\<not> sinkAllConnected (foldl bindSink c arr')"
    by (simp add: sink_barrier_pending)
  with h show snk: "migrationSink_Do c arr' instOp drv tr' =
        (Some (Errorf ''Timed out waiting for migration connections''),
         (foldl bindSink c arr')\<lparr>sinkAllConnected := True\<rparr>, tr' @ [IO Cancel])"
    by (simp add: migrationSink_Do_def)
  show "invocations (snd (snd (migrationSink_Do c arr' instOp drv tr'))) = invocations tr'"
    by (simp add: snk)
qed

theorem barrier_timeout_witness:
  "\<not> allConnected freshSource \<and>
   \<not> allBound (foldl bindSource freshSource [(Control, 1)]) \<and>
   migrationSourceWs_Do freshSource [(Control, 1)] 0 quietDriver [] =
     (Some (Errorf ''Timed out waiting for migration connections''),
      freshSource\<lparr>controlConn := Some 1, allConnected := True\<rparr>, [IO Cancel]) \<and>
   push freshPushSink \<and> \<not> sinkAllConnected freshPushSink \<and>
   \<not> allBound (foldl bindSink freshPushSink [(Filesystem, 2)]) \<and>
   migrationSink_Do freshPushSink [(Filesystem, 2)] 0 quietDriver [] =
     (Some (Errorf ''Timed out waiting for migration connections''),
      freshPushSink\<lparr>fsConn := Some 2, sinkAllConnected := True\<rparr>, [IO Cancel])"
proof -
  have a: "\<not> allConnected freshSource \<and>
      \<not> allBound (foldl bindSource freshSource [(Control, 1)])"
    by (simp add: session_defs bind_defs)
  have b: "push freshPushSink \<and> \<not> sinkAllConnected freshPushSink \<and>
      \<not> allBound (foldl bindSink freshPushSink [(Filesystem, 2)])"
    by (simp add: session_defs bind_defs)
  show ?thesis
    using a b
      barrier_timeout [where s = freshSource and arr = "[(Control, 1)]" and migrateOp = 0
        and drv = quietDriver and tr = "[]" and c = freshPushSink
        and arr' = "[(Filesystem, 2)]" and instOp = 0 and tr' = "[]"]
    by (simp add: session_defs bind_defs)
qed

text \<open>
  C1, as the claim states it, fails: a push-mode sink whose filesystem channel binds
  (connection 7) and whose control channel does not runs into the timeout; \<open>Do()\<close>
  returns the timeout error after the cancellation alone, and connection 7 is not
  closed.
\<close>

theorem teardown_skipped_on_timeout:
  "migrationSink_Do freshPushSink [(Filesystem, 7)] 0 quietDriver [] =
     (Some (Errorf ''Timed out waiting for migration connections''),
      freshPushSink\<lparr>fsConn := Some 7, sinkAllConnected := True\<rparr>, [IO Cancel]) \<and>
   IO (Close 7) \<notin> set (snd (snd (migrationSink_Do freshPushSink [(Filesystem, 7)] 0 quietDriver [])))"
  by (simp add: migrationSink_Do_def session_defs bind_defs)

text \<open>
  C1, amended. \<open>defer disconnect()\<close> is registered once the channels are ready, and the
  teardown runs on every exit path from there on: after the barrier was released
  (source and push-mode sink), and in a pull-mode sink after the control dial
  succeeded, every connection that the session holds is closed when \<open>Do()\<close> returns,
  whatever the driver calls and returns and whichever later dial fails. The exits
  before that point run no teardown: on a timeout \<open>Do()\<close> only cancels the barrier, and
  after a failed control dial it only returns.
\<close>

theorem teardown_after_channels_ready:
  "(allConnected (foldl bindSource s arr) \<and> connOf r (foldl bindSource s arr) = Some k \<longrightarrow>
      IO (Close k) \<in> set (snd (snd (migrationSourceWs_Do s arr migrateOp drv tr))))
   \<and> (push c \<and> sinkAllConnected (foldl bindSink c arr') \<and>
       connOf r (foldl bindSink c arr') = Some k \<longrightarrow>
      IO (Close k) \<in> set (snd (snd (migrationSink_Do c arr' instOp drv tr'))))
   \<and> (\<not> push c \<and> dialer c (url c) (controlSecret c) = Inr kc \<and>
       connOf r (fst (snd (migrationSink_Do c arr' instOp drv tr'))) = Some k \<longrightarrow>
      IO (Close k) \<in> set (snd (snd (migrationSink_Do c arr' instOp drv tr'))))
   \<and> (\<not> allConnected (foldl bindSource s arr) \<longrightarrow>
      snd (snd (migrationSourceWs_Do s arr migrateOp drv tr)) = tr @ [IO Cancel])
   \<and> (push c \<and> \<not> sinkAllConnected (foldl bindSink c arr') \<longrightarrow>
      snd (snd (migrationSink_Do c arr' instOp drv tr')) = tr' @ [IO Cancel])
   \<and> (\<not> push c \<and> dialer c (url c) (controlSecret c) = Inl e \<longrightarrow>
      snd (snd (migrationSink_Do c arr' instOp drv tr')) =
        tr' @ [IO (Dial (url c) (controlSecret c))])"
proof (intro conjI impI)
  assume "allConnected (foldl bindSource s arr) \<and> connOf r (foldl bindSource s arr) = Some k"
  then show "IO (Close k) \<in> set (snd (snd (migrationSourceWs_Do s arr migrateOp drv tr)))"
    by (auto simp: source_Do_teardown intro: disconnect_closes)
next
  assume "push c \<and> sinkAllConnected (foldl bindSink c arr') \<and>
       connOf r (foldl bindSink c arr') = Some k"
  then show "IO (Close k) \<in> set (snd (snd (migrationSink_Do c arr' instOp drv tr')))"
    by (auto simp: push_Do_teardown sinkReceive_teardown intro: disconnect_closes)
next
  assume h: "\<not> push c \<and> dialer c (url c) (controlSecret c) = Inr kc \<and>
       connOf r (fst (snd (migrationSink_Do c arr' instOp drv tr'))) = Some k"
  obtain err c' tr2 where d: "migrationSink_Do c arr' instOp drv tr' = (err, c', tr2)"
    by (cases "migrationSink_Do c arr' instOp drv tr'") auto
  obtain tr0 where "tr2 = disconnect c' tr0"
    using pull_Do_teardown [OF _ _ d] h by blast
  then show "IO (Close k) \<in> set (snd (snd (migrationSink_Do c arr' instOp drv tr')))"
    using h d by (auto intro: disconnect_closes)
next
  assume "\<not> allConnected (foldl bindSource s arr)"
  then show "snd (snd (migrationSourceWs_Do s arr migrateOp drv tr)) = tr @ [IO Cancel]"
    by (simp add: migrationSourceWs_Do_def)
next
  assume "push c \<and> \<not> sinkAllConnected (foldl bindSink c arr')"
  then show "snd (snd (migrationSink_Do c arr' instOp drv tr')) = tr' @ [IO Cancel]"
    by (simp add: migrationSink_Do_def)
next
  assume "\<not> push c \<and> dialer c (url c) (controlSecret c) = Inl e"
  then show "snd (snd (migrationSink_Do c arr' instOp drv tr')) =
        tr' @ [IO (Dial (url c) (controlSecret c))]"
    by (simp add: migrationSink_Do_def connectWithSecret_def)
qed

theorem teardown_after_channels_ready_witness:
  "allConnected (foldl bindSource freshSource [(Control, 1), (Filesystem, 2)]) \<and>
   connOf Filesystem (foldl bindSource freshSource [(Control, 1), (Filesystem, 2)]) = Some 2 \<and>
   IO (Close 2) \<in> set (snd (snd (migrationSourceWs_Do freshSource
       [(Control, 1), (Filesystem, 2)] 0 quietDriver []))) \<and>
   push freshPushSink \<and>
   sinkAllConnected (foldl bindSink freshPushSink [(Filesystem, 2), (Control, 1)]) \<and>
   connOf Control (foldl bindSink freshPushSink [(Filesystem, 2), (Control, 1)]) = Some 1 \<and>
   IO (Close 1) \<in> set (snd (snd (migrationSink_Do freshPushSink
       [(Filesystem, 2), (Control, 1)] 0 quietDriver []))) \<and>
   \<not> push (freshPullSink True []) \<and>
   dialer (freshPullSink True []) (url (freshPullSink True []))
     (controlSecret (freshPullSink True [])) = Inr 1 \<and>
   fst (migrationSink_Do (freshPullSink True []) [] 0 quietDriver []) =
     Some (Wrapf ''Failed connecting migration state sink socket'' (Errorf ''refused'')) \<and>
   connOf Filesystem (fst (snd (migrationSink_Do (freshPullSink True []) [] 0 quietDriver []))) =
     Some 2 \<and>
   IO (Close 2) \<in> set (snd (snd (migrationSink_Do (freshPullSink True []) [] 0 quietDriver []))) \<and>
   \<not> allConnected (foldl bindSource freshSource [(Filesystem, 2)]) \<and>
   snd (snd (migrationSourceWs_Do freshSource [(Filesystem, 2)] 0 quietDriver [])) = [IO Cancel]"
proof -
  have a: "allConnected (foldl bindSource freshSource [(Control, 1), (Filesystem, 2)]) \<and>
      connOf Filesystem (foldl bindSource freshSource [(Control, 1), (Filesystem, 2)]) = Some 2"
    by (simp add: session_defs bind_defs)
  have b: "push freshPushSink \<and>
      sinkAllConnected (foldl bindSink freshPushSink [(Filesystem, 2), (Control, 1)]) \<and>
      connOf Control (foldl bindSink freshPushSink [(Filesystem, 2), (Control, 1)]) = Some 1"
    by (simp add: session_defs bind_defs)
  have c1: "\<not> push (freshPullSink True []) \<and>
      dialer (freshPullSink True []) (url (freshPullSink True []))
        (controlSecret (freshPullSink True [])) = Inr 1"
    by (simp add: session_defs peer_def)
  have c2: "fst (migrationSink_Do (freshPullSink True []) [] 0 quietDriver []) =
        Some (Wrapf ''Failed connecting migration state sink socket'' (Errorf ''refused'')) \<and>
      connOf Filesystem (fst (snd (migrationSink_Do (freshPullSink True []) [] 0 quietDriver []))) =
        Some 2"
    by (simp add: do_defs session_defs peer_def runningContainer_def)
  have d: "\<not> allConnected (foldl bindSource freshSource [(Filesystem, 2)])"
    by (simp add: session_defs bind_defs)
  note t1 = teardown_after_channels_ready [where s = freshSource
      and arr = "[(Control, 1), (Filesystem, 2)]" and r = Filesystem and k = 2
      and migrateOp = 0 and drv = quietDriver and tr = "[]"]
  note t2 = teardown_after_channels_ready [where c = freshPushSink
      and arr' = "[(Filesystem, 2), (Control, 1)]" and r = Control and k = 1
      and instOp = 0 and drv = quietDriver and tr' = "[]"]
  note t3 = teardown_after_channels_ready [where c = "freshPullSink True []"
      and arr' = "[]" and r = Filesystem and k = 2 and kc = 1
      and instOp = 0 and drv = quietDriver and tr' = "[]"]
  note t4 = teardown_after_channels_ready [where s = freshSource
      and arr = "[(Filesystem, 2)]" and migrateOp = 0 and drv = quietDriver and tr = "[]"]
  have e1: "IO (Close 2) \<in> set (snd (snd (migrationSourceWs_Do freshSource
       [(Control, 1), (Filesystem, 2)] 0 quietDriver [])))"
    using t1 a by blast
  have e2: "IO (Close 1) \<in> set (snd (snd (migrationSink_Do freshPushSink
       [(Filesystem, 2), (Control, 1)] 0 quietDriver [])))"
    using t2 b by blast
  have e3: "IO (Close 2) \<in> set (snd (snd (migrationSink_Do (freshPullSink True []) [] 0
       quietDriver [])))"
    using t3 c1 c2 by blast
  have e4: "snd (snd (migrationSourceWs_Do freshSource [(Filesystem, 2)] 0 quietDriver [])) =
      [IO Cancel]"
    using t4 d by simp
  show ?thesis
    using a b c1 c2 d e1 e2 e3 e4 by blast
qed

section \<open>What the driver is given\<close>

text \<open>
  C5, as the claim states it, fails: with the three channels bound to the connections
  1, 2 and 3, the Disconnect callback closes 2 and 3 and leaves the control
  connection 1 alone.
\<close>

theorem disconnect_callback_leaves_control:
  "controlConn (freshSource\<lparr>controlConn := Some 1, fsConn := Some 2, stateConn := Some 3\<rparr>) =
     Some 1 \<and>
   Disconnect (sourceArgs freshSource)
     (freshSource\<lparr>controlConn := Some 1, fsConn := Some 2, stateConn := Some 3\<rparr>) =
     [Close 2, Close 3] \<and>
   Close 1 \<notin> set (Disconnect (sourceArgs freshSource)
     (freshSource\<lparr>controlConn := Some 1, fsConn := Some 2, stateConn := Some 3\<rparr>))"
  by (simp add: sourceArgs_def disconnectFunc_def session_defs)

text \<open>
  C5, amended. The Disconnect callback that \<open>Do()\<close> hands to the driver, in the source
  and in the sink, closes the filesystem connection and the state connection of the
  session when they are bound, and nothing else: at every session state the
  connections it closes are exactly the bound filesystem and state connections. The
  control connection stays open for the deferred teardown.
\<close>

theorem disconnect_callback_closes_fs_and_state:
  "(fsConn x = Some k \<longrightarrow> Close k \<in> set (Disconnect (sourceArgs s) x))
   \<and> (stateConn x = Some k \<longrightarrow> Close k \<in> set (Disconnect (sourceArgs s) x))
   \<and> (Close k \<in> set (Disconnect (sourceArgs s) x) \<longrightarrow> fsConn x = Some k \<or> stateConn x = Some k)
   \<and> (fsConn y = Some k \<longrightarrow> Close k \<in> set (Disconnect (sinkArgs c instOp) y))
   \<and> (stateConn y = Some k \<longrightarrow> Close k \<in> set (Disconnect (sinkArgs c instOp) y))
   \<and> (Close k \<in> set (Disconnect (sinkArgs c instOp) y) \<longrightarrow>
        fsConn y = Some k \<or> stateConn y = Some k)"
  by (auto simp: sourceArgs_def sinkArgs_def disconnectFunc_def split: option.splits)

theorem disconnect_callback_closes_fs_and_state_witness:
  "fsConn (freshSource\<lparr>controlConn := Some 1, fsConn := Some 2, stateConn := Some 3\<rparr>) = Some 2 \<and>
   Close 2 \<in> set (Disconnect (sourceArgs freshSource)
     (freshSource\<lparr>controlConn := Some 1, fsConn := Some 2, stateConn := Some 3\<rparr>)) \<and>
   stateConn (freshPushSink\<lparr>controlConn := Some 1, fsConn := Some 2, stateConn := Some 3\<rparr>) =
     Some 3 \<and>
   Close 3 \<in> set (Disconnect (sinkArgs freshPushSink 0)
     (freshPushSink\<lparr>controlConn := Some 1, fsConn := Some 2, stateConn := Some 3\<rparr>))"
proof -
  have a: "fsConn (freshSource\<lparr>controlConn := Some 1, fsConn := Some 2, stateConn := Some 3\<rparr>) =
      Some 2"
    by simp
  have b: "stateConn (freshPushSink\<lparr>controlConn := Some 1, fsConn := Some 2,
      stateConn := Some 3\<rparr>) = Some 3"
    by simp
  note t1 = disconnect_callback_closes_fs_and_state [where s = freshSource and k = 2
      and x = "freshSource\<lparr>controlConn := Some 1, fsConn := Some 2, stateConn := Some 3\<rparr>"]
  note t2 = disconnect_callback_closes_fs_and_state [where c = freshPushSink and k = 3
      and instOp = 0
      and y = "freshPushSink\<lparr>controlConn := Some 1, fsConn := Some 2, stateConn := Some 3\<rparr>"]
  show ?thesis
    using a b t1 t2 by blast
qed







section \<open>The dials of a pull-mode sink\<close>

lemma pull_Do_dialled:
  assumes "\<not> push c"
    and "dialer c (url c) (controlSecret c) = Inr kc"
    and "dialer c (url c) (fsSecret c) = Inr kf"
  shows "dialled (snd (snd (migrationSink_Do c arr instOp drv tr))) =
     dialled tr @ [controlSecret c, fsSecret c] @
       (if live c \<and> Type (inst c) = Container then [stateSecret c] else [])"
  using assms
  by (simp add: migrationSink_Do_def connectWithSecret_def Let_def sinkReceive_teardown
      split: sum.splits)

lemma pull_construction:
  assumes "\<not> argPush a"
    and "argSecrets a SecretNameControl = Some cs"
    and "argSecrets a SecretNameFilesystem = Some fs"
    and "Type (argInstance a) = Container \<and> (argSecrets a SecretNameState \<noteq> None \<or> argLive a)
         \<longrightarrow> LookPath_criu e"
  shows "newMigrationSink e a =
     Inr \<lparr> controlSecret = cs, controlConn = None,
           stateSecret = (case argSecrets a SecretNameState of None \<Rightarrow> [] | Some x \<Rightarrow> x),
           stateConn = None, fsSecret = fs, fsConn = None,
           live = (argSecrets a SecretNameState \<noteq> None \<or> argLive a),
           instanceOnly = argInstanceOnly a, inst = argInstance a, allowInconsistent = False,
           url = argURL a, dialer = argDialer a, sinkAllConnected = False,
           sinkClusterMoveSourceName = argClusterMoveSourceName a,
           push = False, refresh = argRefresh a \<rparr>"
  using assms by (auto simp: newMigrationSink_def sinkProbe_def Let_def)

text \<open>
  C2. A pull-mode sink dials control, then filesystem, then state, the last only for a
  live container. When the control dial fails, \<open>Do()\<close> returns after that one dial and
  does nothing else. When the filesystem dial or the state dial fails, \<open>Do()\<close> notifies
  the peer over the control connection it has opened, makes no further dial, leaves
  the driver alone, tears the channels down and returns the error of the failed dial,
  which the code wraps (\<^verbatim>\<open>%w\<close>) under the name of the socket that failed; the
  notification cannot replace it, since it returns nothing.
\<close>

theorem pull_dial_order:
  assumes "\<not> push c"
  shows "(dialer c (url c) (controlSecret c) = Inl e \<longrightarrow>
      migrationSink_Do c arr instOp drv tr =
        (Some (Wrapf ''Failed connecting migration control sink socket'' e),
         c\<lparr>controlConn := None\<rparr>, tr @ [IO (Dial (url c) (controlSecret c))]))
   \<and> (dialer c (url c) (controlSecret c) = Inr kc \<and> dialer c (url c) (fsSecret c) = Inl e \<longrightarrow>
      migrationSink_Do c arr instOp drv tr =
        (Some (Wrapf ''Failed connecting migration filesystem sink socket'' e),
         c\<lparr>controlConn := Some kc, fsConn := None\<rparr>,
         disconnect (c\<lparr>controlConn := Some kc, fsConn := None\<rparr>)
           (tr @ [IO (Dial (url c) (controlSecret c)), IO (Dial (url c) (fsSecret c)),
                  IO (Notify kc (Wrapf ''Failed connecting migration filesystem sink socket'' e))])) \<and>
      invocations (snd (snd (migrationSink_Do c arr instOp drv tr))) = invocations tr \<and>
      dialled (snd (snd (migrationSink_Do c arr instOp drv tr))) =
        dialled tr @ [controlSecret c, fsSecret c])
   \<and> (dialer c (url c) (controlSecret c) = Inr kc \<and> dialer c (url c) (fsSecret c) = Inr kf \<and>
       live c \<and> Type (inst c) = Container \<and> dialer c (url c) (stateSecret c) = Inl e \<longrightarrow>
      migrationSink_Do c arr instOp drv tr =
        (Some (Wrapf ''Failed connecting migration state sink socket'' e),
         c\<lparr>controlConn := Some kc, fsConn := Some kf, stateConn := None\<rparr>,
         disconnect (c\<lparr>controlConn := Some kc, fsConn := Some kf, stateConn := None\<rparr>)
           (tr @ [IO (Dial (url c) (controlSecret c)), IO (Dial (url c) (fsSecret c)),
                  IO (Dial (url c) (stateSecret c)),
                  IO (Notify kc (Wrapf ''Failed connecting migration state sink socket'' e))])) \<and>
      invocations (snd (snd (migrationSink_Do c arr instOp drv tr))) = invocations tr)
   \<and> (dialer c (url c) (controlSecret c) = Inr kc \<and> dialer c (url c) (fsSecret c) = Inr kf \<longrightarrow>
      dialled (snd (snd (migrationSink_Do c arr instOp drv tr))) =
        dialled tr @ [controlSecret c, fsSecret c] @
          (if live c \<and> Type (inst c) = Container then [stateSecret c] else []))"
proof (intro conjI impI)
  assume "dialer c (url c) (controlSecret c) = Inl e"
  then show "migrationSink_Do c arr instOp drv tr =
        (Some (Wrapf ''Failed connecting migration control sink socket'' e),
         c\<lparr>controlConn := None\<rparr>, tr @ [IO (Dial (url c) (controlSecret c))])"
    using assms by (simp add: migrationSink_Do_def connectWithSecret_def)
next
  assume h: "dialer c (url c) (controlSecret c) = Inr kc \<and> dialer c (url c) (fsSecret c) = Inl e"
  then show fs: "migrationSink_Do c arr instOp drv tr =
        (Some (Wrapf ''Failed connecting migration filesystem sink socket'' e),
         c\<lparr>controlConn := Some kc, fsConn := None\<rparr>,
         disconnect (c\<lparr>controlConn := Some kc, fsConn := None\<rparr>)
           (tr @ [IO (Dial (url c) (controlSecret c)), IO (Dial (url c) (fsSecret c)),
                  IO (Notify kc (Wrapf ''Failed connecting migration filesystem sink socket'' e))]))"
    using assms
    by (simp add: migrationSink_Do_def connectWithSecret_def sendControl_def Let_def)
  show "invocations (snd (snd (migrationSink_Do c arr instOp drv tr))) = invocations tr"
    by (simp add: fs)
  show "dialled (snd (snd (migrationSink_Do c arr instOp drv tr))) =
        dialled tr @ [controlSecret c, fsSecret c]"
    by (simp add: fs)
next
  assume h: "dialer c (url c) (controlSecret c) = Inr kc \<and> dialer c (url c) (fsSecret c) = Inr kf \<and>
       live c \<and> Type (inst c) = Container \<and> dialer c (url c) (stateSecret c) = Inl e"
  then show st: "migrationSink_Do c arr instOp drv tr =
        (Some (Wrapf ''Failed connecting migration state sink socket'' e),
         c\<lparr>controlConn := Some kc, fsConn := Some kf, stateConn := None\<rparr>,
         disconnect (c\<lparr>controlConn := Some kc, fsConn := Some kf, stateConn := None\<rparr>)
           (tr @ [IO (Dial (url c) (controlSecret c)), IO (Dial (url c) (fsSecret c)),
                  IO (Dial (url c) (stateSecret c)),
                  IO (Notify kc (Wrapf ''Failed connecting migration state sink socket'' e))]))"
    using assms
    by (simp add: migrationSink_Do_def connectWithSecret_def sendControl_def Let_def)
  show "invocations (snd (snd (migrationSink_Do c arr instOp drv tr))) = invocations tr"
    by (simp add: st)
next
  assume "dialer c (url c) (controlSecret c) = Inr kc \<and> dialer c (url c) (fsSecret c) = Inr kf"
  then show "dialled (snd (snd (migrationSink_Do c arr instOp drv tr))) =
        dialled tr @ [controlSecret c, fsSecret c] @
          (if live c \<and> Type (inst c) = Container then [stateSecret c] else [])"
    using assms pull_Do_dialled [of c kc kf] by simp
qed


theorem pull_dial_order_witness:
  "\<not> push (freshPullSink True []) \<and>
   migrationSink_Do ((freshPullSink False [])\<lparr>controlSecret := ''zz''\<rparr>) [] 0 quietDriver [] =
     (Some (Wrapf ''Failed connecting migration control sink socket'' (Errorf ''refused'')),
      (freshPullSink False [])\<lparr>controlSecret := ''zz''\<rparr>,
      [IO (Dial ''https://peer'' ''zz'')]) \<and>
   migrationSink_Do ((freshPullSink False [])\<lparr>fsSecret := ''zz''\<rparr>) [] 0 quietDriver [] =
     (Some (Wrapf ''Failed connecting migration filesystem sink socket'' (Errorf ''refused'')),
      (freshPullSink False [])\<lparr>fsSecret := ''zz'', controlConn := Some 1\<rparr>,
      [IO (Dial ''https://peer'' ''c1''), IO (Dial ''https://peer'' ''zz''),
       IO (Notify 1 (Wrapf ''Failed connecting migration filesystem sink socket'' (Errorf ''refused''))),
       IO (Close 1)]) \<and>
   migrationSink_Do (freshPullSink True []) [] 0 quietDriver [] =
     (Some (Wrapf ''Failed connecting migration state sink socket'' (Errorf ''refused'')),
      (freshPullSink True [])\<lparr>controlConn := Some 1, fsConn := Some 2\<rparr>,
      [IO (Dial ''https://peer'' ''c1''), IO (Dial ''https://peer'' ''f1''),
       IO (Dial ''https://peer'' []),
       IO (Notify 1 (Wrapf ''Failed connecting migration state sink socket'' (Errorf ''refused''))),
       IO (Close 1), IO (Close 2)]) \<and>
   dialled (snd (snd (migrationSink_Do (freshPullSink True ''s1'') [] 0 quietDriver []))) =
     [''c1'', ''f1'', ''s1''] \<and>
   dialled (snd (snd (migrationSink_Do (freshPullSink False []) [] 0 quietDriver []))) =
     [''c1'', ''f1'']"
proof -
  have p1: "\<not> push ((freshPullSink False [])\<lparr>controlSecret := ''zz''\<rparr>)"
    and p2: "\<not> push ((freshPullSink False [])\<lparr>fsSecret := ''zz''\<rparr>)"
    and p3: "\<not> push (freshPullSink True [])"
    and p4: "\<not> push (freshPullSink True ''s1'')"
    and p5: "\<not> push (freshPullSink False [])"
    by (simp_all add: session_defs)
  have a: "migrationSink_Do ((freshPullSink False [])\<lparr>controlSecret := ''zz''\<rparr>) [] 0 quietDriver [] =
     (Some (Wrapf ''Failed connecting migration control sink socket'' (Errorf ''refused'')),
      (freshPullSink False [])\<lparr>controlSecret := ''zz''\<rparr>,
      [IO (Dial ''https://peer'' ''zz'')])"
    using pull_dial_order [OF p1, where e = "Errorf ''refused''" and arr = "[]" and instOp = 0 and drv = quietDriver
        and tr = "[]"]
    by (simp add: session_defs peer_def)
  have b: "migrationSink_Do ((freshPullSink False [])\<lparr>fsSecret := ''zz''\<rparr>) [] 0 quietDriver [] =
     (Some (Wrapf ''Failed connecting migration filesystem sink socket'' (Errorf ''refused'')),
      (freshPullSink False [])\<lparr>fsSecret := ''zz'', controlConn := Some 1\<rparr>,
      [IO (Dial ''https://peer'' ''c1''), IO (Dial ''https://peer'' ''zz''),
       IO (Notify 1 (Wrapf ''Failed connecting migration filesystem sink socket'' (Errorf ''refused''))),
       IO (Close 1)])"
    using pull_dial_order [OF p2, where e = "Errorf ''refused''" and kc = 1 and arr = "[]" and instOp = 0
        and drv = quietDriver and tr = "[]"]
    by (simp add: session_defs peer_def disconnect_def closeOnce_def)
  have c: "migrationSink_Do (freshPullSink True []) [] 0 quietDriver [] =
     (Some (Wrapf ''Failed connecting migration state sink socket'' (Errorf ''refused'')),
      (freshPullSink True [])\<lparr>controlConn := Some 1, fsConn := Some 2\<rparr>,
      [IO (Dial ''https://peer'' ''c1''), IO (Dial ''https://peer'' ''f1''),
       IO (Dial ''https://peer'' []),
       IO (Notify 1 (Wrapf ''Failed connecting migration state sink socket'' (Errorf ''refused''))),
       IO (Close 1), IO (Close 2)])"
    using pull_dial_order [OF p3, where e = "Errorf ''refused''" and kc = 1 and kf = 2 and arr = "[]" and instOp = 0
        and drv = quietDriver and tr = "[]"]
    by (simp add: session_defs peer_def disconnect_def closeOnce_def runningContainer_def)
  have d: "dialled (snd (snd (migrationSink_Do (freshPullSink True ''s1'') [] 0 quietDriver []))) =
     [''c1'', ''f1'', ''s1'']"
    using pull_dial_order [OF p4, where kc = 1 and kf = 2 and arr = "[]" and instOp = 0 and drv = quietDriver and tr = "[]"]
    by (simp add: session_defs peer_def runningContainer_def)
  have e: "dialled (snd (snd (migrationSink_Do (freshPullSink False []) [] 0 quietDriver []))) =
     [''c1'', ''f1'']"
    using pull_dial_order [OF p5, where kc = 1 and kf = 2 and arr = "[]" and instOp = 0 and drv = quietDriver and tr = "[]"]
    by (simp add: session_defs peer_def)
  show ?thesis
    using p3 a b c d e by simp
qed

text \<open>
  C10, as the claim states it, fails: with a control and a filesystem entry, no state
  entry and the live argument true, the construction of a pull-mode sink for a
  container does not succeed on a host without the checkpoint tool.
\<close>

theorem pull_live_container_needs_probe:
  "\<not> argPush (pullArgs runningContainer True twoSecrets) \<and>
   argSecrets (pullArgs runningContainer True twoSecrets) SecretNameState = None \<and>
   argLive (pullArgs runningContainer True twoSecrets) \<and>
   newMigrationSink hostWithoutCriu (pullArgs runningContainer True twoSecrets) =
     Inl ErrNoLiveMigrationTarget"
  by (simp add: newMigrationSink_def sinkProbe_def Let_def host_defs args_defs)

text \<open>
  C10, amended. For a pull-mode sink whose table has the control and the filesystem
  entry and no state entry, with the live argument true, and whose workload is not a
  container or whose host passes the capability probe, the construction succeeds with
  a live session whose state secret is the empty string; for a container, once the
  control and the filesystem dial have succeeded, \<open>Do()\<close> dials the state channel with
  that empty secret.
\<close>

theorem pull_live_without_state_entry:
  assumes "\<not> argPush a"
    and "argSecrets a SecretNameControl = Some cs"
    and "argSecrets a SecretNameFilesystem = Some fs"
    and "argSecrets a SecretNameState = None"
    and "argLive a"
    and "Type (argInstance a) = Container \<longrightarrow> LookPath_criu e"
  shows "\<exists>c. newMigrationSink e a = Inr c \<and> live c \<and> stateSecret c = [] \<and>
     (Type (argInstance a) = Container \<and> argDialer a (argURL a) cs = Inr kc \<and>
      argDialer a (argURL a) fs = Inr kf \<longrightarrow>
        dialled (snd (snd (migrationSink_Do c arr instOp drv tr))) = dialled tr @ [cs, fs, []])"
proof -
  let ?c = "\<lparr> controlSecret = cs, controlConn = None, stateSecret = [],
           stateConn = None, fsSecret = fs, fsConn = None, live = True,
           instanceOnly = argInstanceOnly a, inst = argInstance a, allowInconsistent = False,
           url = argURL a, dialer = argDialer a, sinkAllConnected = False,
           sinkClusterMoveSourceName = argClusterMoveSourceName a,
           push = False, refresh = argRefresh a \<rparr>"
  have c: "newMigrationSink e a = Inr ?c"
    using assms pull_construction [of a cs fs e] by simp
  have "dialled (snd (snd (migrationSink_Do ?c arr instOp drv tr))) = dialled tr @ [cs, fs, []]"
    if "Type (argInstance a) = Container \<and> argDialer a (argURL a) cs = Inr kc \<and>
      argDialer a (argURL a) fs = Inr kf"
    using that pull_Do_dialled [of ?c kc kf arr instOp drv tr] by simp
  then show ?thesis
    using c by simp
qed

theorem pull_live_without_state_entry_witness:
  "\<not> argPush (pullArgs runningContainer True twoSecrets) \<and>
   argSecrets (pullArgs runningContainer True twoSecrets) SecretNameState = None \<and>
   argLive (pullArgs runningContainer True twoSecrets) \<and>
   LookPath_criu hostWithCriu \<and>
   newMigrationSink hostWithCriu (pullArgs runningContainer True twoSecrets) =
     Inr (freshPullSink True []) \<and>
   dialled (snd (snd (migrationSink_Do (freshPullSink True []) [] 0 quietDriver []))) =
     [''c1'', ''f1'', []]"
proof -
  let ?a = "pullArgs runningContainer True twoSecrets"
  have h: "\<not> argPush ?a" "argSecrets ?a SecretNameControl = Some ''c1''"
    "argSecrets ?a SecretNameFilesystem = Some ''f1''" "argSecrets ?a SecretNameState = None"
    "argLive ?a" "Type (argInstance ?a) = Container \<longrightarrow> LookPath_criu hostWithCriu"
    by (simp_all add: args_defs host_defs)
  have n: "newMigrationSink hostWithCriu ?a = Inr (freshPullSink True [])"
    by (simp add: newMigrationSink_def sinkProbe_def Let_def host_defs args_defs session_defs)
  have k: "Type (argInstance ?a) = Container \<and> argDialer ?a (argURL ?a) ''c1'' = Inr 1 \<and>
      argDialer ?a (argURL ?a) ''f1'' = Inr 2"
    by (simp add: args_defs host_defs)
  have "dialled (snd (snd (migrationSink_Do (freshPullSink True []) [] 0 quietDriver []))) =
     [''c1'', ''f1'', []]"
    using pull_live_without_state_entry [OF h, where kc = 1 and kf = 2 and arr = "[]"
        and instOp = 0 and drv = quietDriver and tr = "[]"] n k
    by simp
  then show ?thesis
    using h n by (simp add: host_defs)
qed

section \<open>The state secret and the state channel\<close>

text \<open>
  C6, as the claim states it, fails: a push-mode sink for a VM, built with the live
  argument true, holds a state secret although its workload is not a container.
\<close>

theorem push_sink_vm_state_secret:
  "newMigrationSink hostWithCriu (pushArgs runningVM True) =
     Inr (freshPushSink\<lparr>live := True, inst := runningVM, stateSecret := ''s1''\<rparr>) \<and>
   stateSecret (freshPushSink\<lparr>live := True, inst := runningVM, stateSecret := ''s1''\<rparr>) \<noteq> [] \<and>
   Type (inst (freshPushSink\<lparr>live := True, inst := runningVM, stateSecret := ''s1''\<rparr>)) = VM"
  by (simp add: newMigrationSink_def sinkProbe_def Let_def host_defs args_defs session_defs)

text \<open>
  C6, amended. Provided that minted tokens are non-empty: a source holds a state secret
  exactly when it is live and its workload is a container; a push-mode sink holds one
  exactly when it is live, whatever the workload. A pull-mode sink holds the state entry
  of the table it was given (the empty string when there is none), and is live when
  there is one, whatever the workload. In \<open>Do()\<close>, a pull-mode sink whose control and
  filesystem dials have succeeded dials the state channel exactly when it is live and
  its workload is a container, with whatever state secret it holds; when the control
  dial or the filesystem dial fails, it dials no state channel at all.
\<close>

theorem state_secret_presence:
  assumes "\<forall>k t. RandomCryptoString e k = Inr t \<longrightarrow> t \<noteq> []"
  shows "(newMigrationSource e i stateful only incons nm = Inr s \<longrightarrow>
            (stateSecret s \<noteq> [] \<longleftrightarrow> live s \<and> Type (inst s) = Container))
       \<and> (argPush a \<and> newMigrationSink e a = Inr c \<longrightarrow> (stateSecret c \<noteq> [] \<longleftrightarrow> live c))
       \<and> (\<not> argPush a \<and> newMigrationSink e a = Inr c \<longrightarrow>
            stateSecret c = (case argSecrets a SecretNameState of None \<Rightarrow> [] | Some x \<Rightarrow> x) \<and>
            (argSecrets a SecretNameState \<noteq> None \<longrightarrow> live c))
       \<and> (\<not> push c' \<and> dialer c' (url c') (controlSecret c') = Inr kc \<and>
          dialer c' (url c') (fsSecret c') = Inr kf \<longrightarrow>
            dialled (snd (snd (migrationSink_Do c' arr instOp drv tr))) =
              dialled tr @ [controlSecret c', fsSecret c'] @
                (if live c' \<and> Type (inst c') = Container then [stateSecret c'] else []))
       \<and> (\<not> push c' \<and> dialer c' (url c') (controlSecret c') = Inl de \<longrightarrow>
            dialled (snd (snd (migrationSink_Do c' arr instOp drv tr))) =
              dialled tr @ [controlSecret c'])
       \<and> (\<not> push c' \<and> dialer c' (url c') (controlSecret c') = Inr kc \<and>
          dialer c' (url c') (fsSecret c') = Inl de \<longrightarrow>
            dialled (snd (snd (migrationSink_Do c' arr instOp drv tr))) =
              dialled tr @ [controlSecret c', fsSecret c'])"
proof (intro conjI impI)
  assume "newMigrationSource e i stateful only incons nm = Inr s"
  then show "stateSecret s \<noteq> [] \<longleftrightarrow> live s \<and> Type (inst s) = Container"
    using assms
    by (auto simp: newMigrationSource_def Let_def split: sum.splits if_splits)
next
  assume "argPush a \<and> newMigrationSink e a = Inr c"
  then show "stateSecret c \<noteq> [] \<longleftrightarrow> live c"
    using assms
    by (auto simp: newMigrationSink_def sinkProbe_def Let_def split: sum.splits if_splits)
next
  assume h: "\<not> argPush a \<and> newMigrationSink e a = Inr c"
  then show "stateSecret c = (case argSecrets a SecretNameState of None \<Rightarrow> [] | Some x \<Rightarrow> x)"
    by (auto simp: newMigrationSink_def sinkProbe_def Let_def split: option.splits if_splits)
  show "live c" if "argSecrets a SecretNameState \<noteq> None"
    using h that
    by (auto simp: newMigrationSink_def sinkProbe_def Let_def split: option.splits if_splits)
next
  assume "\<not> push c' \<and> dialer c' (url c') (controlSecret c') = Inr kc \<and>
          dialer c' (url c') (fsSecret c') = Inr kf"
  then show "dialled (snd (snd (migrationSink_Do c' arr instOp drv tr))) =
              dialled tr @ [controlSecret c', fsSecret c'] @
                (if live c' \<and> Type (inst c') = Container then [stateSecret c'] else [])"
    using pull_Do_dialled [of c' kc kf] by simp
next
  assume "\<not> push c' \<and> dialer c' (url c') (controlSecret c') = Inl de"
  then show "dialled (snd (snd (migrationSink_Do c' arr instOp drv tr))) =
              dialled tr @ [controlSecret c']"
    by (simp add: migrationSink_Do_def connectWithSecret_def)
next
  assume "\<not> push c' \<and> dialer c' (url c') (controlSecret c') = Inr kc \<and>
          dialer c' (url c') (fsSecret c') = Inl de"
  then show "dialled (snd (snd (migrationSink_Do c' arr instOp drv tr))) =
              dialled tr @ [controlSecret c', fsSecret c']"
    by (simp add: migrationSink_Do_def connectWithSecret_def Let_def)
qed

theorem state_secret_presence_witness:
  "newMigrationSource hostWithCriu runningContainer True False False [] =
     Inr (freshSource\<lparr>live := True, stateSecret := ''s1''\<rparr>) \<and>
   stateSecret (freshSource\<lparr>live := True, stateSecret := ''s1''\<rparr>) \<noteq> [] \<and>
   newMigrationSource hostWithCriu runningVM True False False [] =
     Inr (freshSource\<lparr>live := True, inst := runningVM\<rparr>) \<and>
   stateSecret (freshSource\<lparr>live := True, inst := runningVM\<rparr>) = [] \<and>
   argPush (pushArgs runningVM True) \<and>
   newMigrationSink hostWithCriu (pushArgs runningVM True) =
     Inr (freshPushSink\<lparr>live := True, inst := runningVM, stateSecret := ''s1''\<rparr>) \<and>
   live (freshPushSink\<lparr>live := True, inst := runningVM, stateSecret := ''s1''\<rparr>) \<and>
   newMigrationSink hostWithCriu
       (pullArgs runningVM False (twoSecrets(SecretNameState \<mapsto> ''s1''))) =
     Inr ((freshPullSink True ''s1'')\<lparr>inst := runningVM\<rparr>) \<and>
   live ((freshPullSink True ''s1'')\<lparr>inst := runningVM\<rparr>) \<and>
   dialled (snd (snd (migrationSink_Do ((freshPullSink True ''s1'')\<lparr>inst := runningVM\<rparr>) [] 0
       quietDriver []))) = [''c1'', ''f1''] \<and>
   dialled (snd (snd (migrationSink_Do (freshPullSink True ''s1'') [] 0 quietDriver []))) =
     [''c1'', ''f1'', ''s1''] \<and>
   dialled (snd (snd (migrationSink_Do ((freshPullSink True ''s1'')\<lparr>controlSecret := ''zz''\<rparr>) [] 0
       quietDriver []))) = [''zz''] \<and>
   dialled (snd (snd (migrationSink_Do ((freshPullSink True ''s1'')\<lparr>fsSecret := ''zz''\<rparr>) [] 0
       quietDriver []))) = [''c1'', ''zz'']"
proof -
  have h: "\<forall>k t. RandomCryptoString hostWithCriu k = Inr t \<longrightarrow> t \<noteq> []"
    by (simp add: host_defs)
  have a: "newMigrationSource hostWithCriu runningContainer True False False [] =
     Inr (freshSource\<lparr>live := True, stateSecret := ''s1''\<rparr>)"
    by (simp add: newMigrationSource_def Let_def host_defs session_defs)
  have a': "stateSecret (freshSource\<lparr>live := True, stateSecret := ''s1''\<rparr>) \<noteq> []"
    using state_secret_presence [OF h, where i = runningContainer and stateful = True
        and only = False and incons = False and nm = "[]"
        and s = "freshSource\<lparr>live := True, stateSecret := ''s1''\<rparr>"] a
    by (simp add: session_defs host_defs)
  have b: "newMigrationSource hostWithCriu runningVM True False False [] =
     Inr (freshSource\<lparr>live := True, inst := runningVM\<rparr>)"
    by (simp add: newMigrationSource_def Let_def host_defs session_defs)
  have b': "stateSecret (freshSource\<lparr>live := True, inst := runningVM\<rparr>) = []"
    using state_secret_presence [OF h, where i = runningVM and stateful = True
        and only = False and incons = False and nm = "[]"
        and s = "freshSource\<lparr>live := True, inst := runningVM\<rparr>"] b
    by (simp add: session_defs host_defs)
  have c: "argPush (pushArgs runningVM True) \<and>
     newMigrationSink hostWithCriu (pushArgs runningVM True) =
       Inr (freshPushSink\<lparr>live := True, inst := runningVM, stateSecret := ''s1''\<rparr>)"
    by (simp add: newMigrationSink_def sinkProbe_def Let_def host_defs args_defs session_defs)
  have c': "live (freshPushSink\<lparr>live := True, inst := runningVM, stateSecret := ''s1''\<rparr>)"
    using state_secret_presence [OF h, where a = "pushArgs runningVM True"
        and c = "freshPushSink\<lparr>live := True, inst := runningVM, stateSecret := ''s1''\<rparr>"] c
    by (simp add: session_defs)
  have d: "\<not> argPush (pullArgs runningVM False (twoSecrets(SecretNameState \<mapsto> ''s1''))) \<and>
     argSecrets (pullArgs runningVM False (twoSecrets(SecretNameState \<mapsto> ''s1'')))
       SecretNameState \<noteq> None \<and>
     newMigrationSink hostWithCriu
         (pullArgs runningVM False (twoSecrets(SecretNameState \<mapsto> ''s1''))) =
       Inr ((freshPullSink True ''s1'')\<lparr>inst := runningVM\<rparr>)"
    by (simp add: newMigrationSink_def sinkProbe_def Let_def host_defs args_defs session_defs)
  have d': "live ((freshPullSink True ''s1'')\<lparr>inst := runningVM\<rparr>)"
    using state_secret_presence [OF h,
        where a = "pullArgs runningVM False (twoSecrets(SecretNameState \<mapsto> ''s1''))"
        and c = "(freshPullSink True ''s1'')\<lparr>inst := runningVM\<rparr>"] d
    by blast
  have e: "\<not> push ((freshPullSink True ''s1'')\<lparr>inst := runningVM\<rparr>) \<and>
     dialer ((freshPullSink True ''s1'')\<lparr>inst := runningVM\<rparr>)
       (url ((freshPullSink True ''s1'')\<lparr>inst := runningVM\<rparr>))
       (controlSecret ((freshPullSink True ''s1'')\<lparr>inst := runningVM\<rparr>)) = Inr 1 \<and>
     dialer ((freshPullSink True ''s1'')\<lparr>inst := runningVM\<rparr>)
       (url ((freshPullSink True ''s1'')\<lparr>inst := runningVM\<rparr>))
       (fsSecret ((freshPullSink True ''s1'')\<lparr>inst := runningVM\<rparr>)) = Inr 2"
    by (simp add: session_defs peer_def)
  have e': "dialled (snd (snd (migrationSink_Do ((freshPullSink True ''s1'')\<lparr>inst := runningVM\<rparr>)
       [] 0 quietDriver []))) = [''c1'', ''f1'']"
    using state_secret_presence [OF h,
        where c' = "(freshPullSink True ''s1'')\<lparr>inst := runningVM\<rparr>" and kc = 1 and kf = 2
        and arr = "[]" and instOp = 0 and drv = quietDriver and tr = "[]"] e
    by (simp add: session_defs host_defs)
  have f: "\<not> push (freshPullSink True ''s1'') \<and>
     dialer (freshPullSink True ''s1'') (url (freshPullSink True ''s1''))
       (controlSecret (freshPullSink True ''s1'')) = Inr 1 \<and>
     dialer (freshPullSink True ''s1'') (url (freshPullSink True ''s1''))
       (fsSecret (freshPullSink True ''s1'')) = Inr 2"
    by (simp add: session_defs peer_def)
  have f': "dialled (snd (snd (migrationSink_Do (freshPullSink True ''s1'') [] 0 quietDriver []))) =
     [''c1'', ''f1'', ''s1'']"
    using state_secret_presence [OF h, where c' = "freshPullSink True ''s1''" and kc = 1
        and kf = 2 and arr = "[]" and instOp = 0 and drv = quietDriver and tr = "[]"] f
    by (simp add: session_defs host_defs)
  have g: "\<not> push ((freshPullSink True ''s1'')\<lparr>controlSecret := ''zz''\<rparr>) \<and>
     dialer ((freshPullSink True ''s1'')\<lparr>controlSecret := ''zz''\<rparr>)
       (url ((freshPullSink True ''s1'')\<lparr>controlSecret := ''zz''\<rparr>))
       (controlSecret ((freshPullSink True ''s1'')\<lparr>controlSecret := ''zz''\<rparr>)) =
       Inl (Errorf ''refused'')"
    by (simp add: session_defs peer_def)
  have g': "dialled (snd (snd (migrationSink_Do
       ((freshPullSink True ''s1'')\<lparr>controlSecret := ''zz''\<rparr>) [] 0 quietDriver []))) = [''zz'']"
    using state_secret_presence [OF h,
        where c' = "(freshPullSink True ''s1'')\<lparr>controlSecret := ''zz''\<rparr>"
        and de = "Errorf ''refused''" and arr = "[]" and instOp = 0 and drv = quietDriver
        and tr = "[]"] g
    by (simp add: session_defs)
  have k: "\<not> push ((freshPullSink True ''s1'')\<lparr>fsSecret := ''zz''\<rparr>) \<and>
     dialer ((freshPullSink True ''s1'')\<lparr>fsSecret := ''zz''\<rparr>)
       (url ((freshPullSink True ''s1'')\<lparr>fsSecret := ''zz''\<rparr>))
       (controlSecret ((freshPullSink True ''s1'')\<lparr>fsSecret := ''zz''\<rparr>)) = Inr 1 \<and>
     dialer ((freshPullSink True ''s1'')\<lparr>fsSecret := ''zz''\<rparr>)
       (url ((freshPullSink True ''s1'')\<lparr>fsSecret := ''zz''\<rparr>))
       (fsSecret ((freshPullSink True ''s1'')\<lparr>fsSecret := ''zz''\<rparr>)) = Inl (Errorf ''refused'')"
    by (simp add: session_defs peer_def)
  have k': "dialled (snd (snd (migrationSink_Do
       ((freshPullSink True ''s1'')\<lparr>fsSecret := ''zz''\<rparr>) [] 0 quietDriver []))) =
     [''c1'', ''zz'']"
    using state_secret_presence [OF h,
        where c' = "(freshPullSink True ''s1'')\<lparr>fsSecret := ''zz''\<rparr>"
        and de = "Errorf ''refused''" and kc = 1 and arr = "[]" and instOp = 0
        and drv = quietDriver and tr = "[]"] k
    by (simp add: session_defs)
  show ?thesis
    using a a' b b' c c' d d' e' f' g' k' by blast
qed

end
